theory Spec2Isabelle
  imports Complex_Main
begin

section \<open>Python values, exceptions and strings\<close>

text \<open>
  The development embeds \<^verbatim>\<open>backend/consumers.py\<close> (the two websocket consumers) together
  with the two model classes of \<^verbatim>\<open>backend/models.py\<close> that the consumers touch.
  Exceptions are values: a function that can raise returns \<open>py_exception + 'a\<close>, and a
  \<^verbatim>\<open>try ... except Exception\<close> block is a case distinction on that result.
\<close>

datatype exc_type =
  AttributeError | TypeError | KeyError | ValueError | ZeroDivisionError
  | NotFound | APIError | DockerException

datatype py_exception = Exc exc_type string

fun str_exc :: "py_exception \<Rightarrow> string" where
  "str_exc (Exc _ m) = m"

text \<open>
  A Python \<^verbatim>\<open>str\<close> is modelled by its UTF-8 bytes. \<^verbatim>\<open>sub in s\<close> is the substring test;
  for the ASCII needles of the classifier it gives the same answer on the bytes as on the
  code points.
\<close>

fun startswith :: "string \<Rightarrow> string \<Rightarrow> bool" where
  "startswith s [] = True"
| "startswith [] (x # xs) = False"
| "startswith (c # cs) (x # xs) = (c = x \<and> startswith cs xs)"

fun py_in :: "string \<Rightarrow> string \<Rightarrow> bool" where
  "py_in sub [] = (sub = [])"
| "py_in sub (c # cs) = (startswith (c # cs) sub \<or> py_in sub cs)"

text \<open>
  \<^verbatim>\<open>str.upper\<close> is a library function driven by the Unicode case tables; the classifier
  takes it as the parameter \<open>upper\<close>. On ASCII text it is \<open>ascii_upper\<close>.
\<close>

definition ascii_upper_char :: "char \<Rightarrow> char" where
  "ascii_upper_char c =
     (if (97 :: nat) \<le> of_char c \<and> (of_char c :: nat) \<le> 122
      then char_of ((of_char c :: nat) - 32) else c)"

definition ascii_upper :: "string \<Rightarrow> string" where
  "ascii_upper s = map ascii_upper_char s"

section \<open>The log classifier\<close>

text \<open>\<^verbatim>\<open>ServerConsoleConsumer.parse_log_level\<close>, with the source's order of tests.\<close>

definition parse_log_level :: "(string \<Rightarrow> string) \<Rightarrow> string \<Rightarrow> string" where
  "parse_log_level upper log_line =
     (let log_upper = upper log_line in
      if py_in ''ERROR'' log_upper \<or> py_in ''SEVERE'' log_upper then ''ERROR''
      else if py_in ''WARN'' log_upper \<or> py_in ''WARNING'' log_upper then ''WARN''
      else if py_in ''DEBUG'' log_upper then ''DEBUG''
      else if py_in ''SUCCESS'' log_upper \<or> py_in ''DONE'' log_upper then ''SUCCESS''
      else ''INFO'')"

section \<open>The models the consumers use\<close>

type_synonym time = nat
type_synonym channel = string

record user =
  user_pk :: nat
  is_authenticated :: bool

text \<open>\<^verbatim>\<open>UserProfile.owned_servers\<close> is the many-to-many field whose reverse accessor on a
  server is \<^verbatim>\<open>owners\<close>.\<close>

record UserProfile =
  profile_pk :: nat
  profile_user :: nat

text \<open>\<^verbatim>\<open>class Server(models.Model)\<close>: the declared fields, the primary key, and the
  reverse accessor \<^verbatim>\<open>owners\<close>.\<close>

record Server =
  server_pk :: nat
  name :: string
  ip_address :: string
  port :: int
  is_online :: bool
  server_type :: string
  minecraft_version :: string
  memory :: string
  created_at :: time
  updated_at :: time
  owners :: "UserProfile list"

text \<open>\<^verbatim>\<open>class ServerLog(models.Model)\<close>: \<^verbatim>\<open>server\<close> (stored as the key of the server),
  \<^verbatim>\<open>timestamp\<close> and \<^verbatim>\<open>log_entry\<close>.\<close>

record ServerLog =
  log_pk :: nat
  server :: nat
  timestamp :: time
  log_entry :: string

datatype pyval =
  PyNone | PyBool bool | PyInt int | PyStr string | PyDateTime time
  | PyUser user | PyProfile UserProfile | PyManager "UserProfile list" | PyRelated nat

text \<open>
  Reading a data attribute of a model instance. An instance has the attributes its class
  declares; any other name raises \<^verbatim>\<open>AttributeError\<close>. (Methods and the reverse
  accessors that the consumers never read are not listed.)
\<close>

definition Server_getattr :: "Server \<Rightarrow> string \<Rightarrow> py_exception + pyval" where
  "Server_getattr s a =
     (if a = ''id'' \<or> a = ''pk'' then Inr (PyInt (int (server_pk s)))
      else if a = ''name'' then Inr (PyStr (name s))
      else if a = ''ip_address'' then Inr (PyStr (ip_address s))
      else if a = ''port'' then Inr (PyInt (port s))
      else if a = ''is_online'' then Inr (PyBool (is_online s))
      else if a = ''server_type'' then Inr (PyStr (server_type s))
      else if a = ''minecraft_version'' then Inr (PyStr (minecraft_version s))
      else if a = ''memory'' then Inr (PyStr (memory s))
      else if a = ''created_at'' then Inr (PyDateTime (created_at s))
      else if a = ''updated_at'' then Inr (PyDateTime (updated_at s))
      else if a = ''owners'' then Inr (PyManager (owners s))
      else Inl (Exc AttributeError (''Server object has no attribute '' @ a)))"

definition ServerLog_getattr :: "ServerLog \<Rightarrow> string \<Rightarrow> py_exception + pyval" where
  "ServerLog_getattr l a =
     (if a = ''id'' \<or> a = ''pk'' then Inr (PyInt (int (log_pk l)))
      else if a = ''server_id'' then Inr (PyInt (int (server l)))
      else if a = ''server'' then Inr (PyRelated (server l))
      else if a = ''timestamp'' then Inr (PyDateTime (timestamp l))
      else if a = ''log_entry'' then Inr (PyStr (log_entry l))
      else Inl (Exc AttributeError (''ServerLog object has no attribute '' @ a)))"

text \<open>
  \<^verbatim>\<open>ServerLog.objects.create(**kwargs)\<close>. The constructor of a model accepts the names of
  its fields, the column name of a foreign key and \<^verbatim>\<open>pk\<close>; any other keyword raises
  \<^verbatim>\<open>TypeError\<close> before anything is written. The insert is modelled for the call shape of
  the consumers (the server given as \<^verbatim>\<open>server_id\<close>, URL text, which the ORM converts with
  \<^verbatim>\<open>int\<close>, here \<open>conv\<close>); \<^verbatim>\<open>timestamp\<close> is \<^verbatim>\<open>auto_now_add\<close>.
\<close>

definition ServerLog_init_names :: "string list" where
  "ServerLog_init_names =
     [''id'', ''pk'', ''server'', ''server_id'', ''timestamp'', ''log_entry'']"

definition next_pk :: "ServerLog list \<Rightarrow> nat" where
  "next_pk table = Suc (fold max (map log_pk table) 0)"

definition ServerLog_objects_create ::
  "(string \<Rightarrow> py_exception + int) \<Rightarrow> (string \<times> pyval) list \<Rightarrow> time \<Rightarrow> ServerLog list
     \<Rightarrow> py_exception + ServerLog list" where
  "ServerLog_objects_create conv kwargs t table =
     (if \<not> list_all (\<lambda>kv. fst kv \<in> set ServerLog_init_names) kwargs
      then Inl (Exc TypeError ''ServerLog() got unexpected keyword arguments'')
      else case map_of kwargs ''server_id'' of
             Some (PyStr sid) \<Rightarrow>
               (case conv sid of
                  Inl e \<Rightarrow> Inl e
                | Inr n \<Rightarrow>
                    Inr (table @
                      [\<lparr>log_pk = next_pk table, server = nat n, timestamp = t,
                        log_entry = (case map_of kwargs ''log_entry'' of
                                       Some (PyStr m) \<Rightarrow> m | _ \<Rightarrow> [])\<rparr>]))
           | _ \<Rightarrow> Inl (Exc ValueError ''server_id''))"

section \<open>The container runtime and the world around a consumer\<close>

datatype docker_client = DockerClient

datatype container = Container nat

text \<open>
  What \<^verbatim>\<open>container.stats(stream=False)\<close> returns, reduced to the six entries that
  \<^verbatim>\<open>get_server_stats\<close> reads; \<open>None\<close> is a missing key (a stopped container reports
  empty sections), and subscripting it raises \<^verbatim>\<open>KeyError\<close>.
\<close>

record docker_stats =
  cpu_stats_total_usage :: "int option"
  precpu_stats_total_usage :: "int option"
  cpu_stats_system_cpu_usage :: "int option"
  precpu_stats_system_cpu_usage :: "int option"
  memory_stats_usage :: "int option"
  memory_stats_limit :: "int option"

text \<open>The Docker daemon is outside the program: each call of the SDK is a field of
  \<open>docker_env\<close>, and may raise.\<close>

record docker_env =
  from_env :: "py_exception + docker_client"
  containers_get :: "string \<Rightarrow> py_exception + container"
  exec_run :: "container \<Rightarrow> string \<Rightarrow> py_exception + unit"
  stats :: "container \<Rightarrow> py_exception + docker_stats"

text \<open>Frames a consumer writes to its websocket: the handshake answers and the JSON
  messages \<^verbatim>\<open>{type: error|info|log, ...}\<close>.\<close>

datatype frame =
  AcceptFrame | CloseFrame
  | ErrorFrame string | InfoFrame string
  | LogFrame pyval pyval time

datatype task = StreamLogs channel container | SendStatsLoop channel

datatype call =
  FromEnv | ContainersGet string | ExecRun container string | CheckAccess nat nat

text \<open>
  The state shared by all connections: the two tables, the groups of the channel layer,
  what has been written to each websocket, the background tasks created with
  \<^verbatim>\<open>asyncio.create_task\<close>, the clock, and a record of the calls made to the
  collaborators.

  The routing pattern \<^verbatim>\<open>(?P<server_id>\d+)\<close> hands the consumers the server id as the
  text of the URL, and the ORM converts it with Python's \<^verbatim>\<open>int\<close> when it queries.
  \<^verbatim>\<open>int\<close> is a builtin driven by the Unicode digit tables (it reads every Unicode decimal
  digit, signs, surrounding blanks and underscores, and raises \<^verbatim>\<open>ValueError\<close> on the rest);
  it is taken as it is, as the field \<open>py_int\<close>.
\<close>

record world =
  servers :: "Server list"
  history :: "ServerLog list"
  groups :: "string \<Rightarrow> channel set"
  outbox :: "channel \<Rightarrow> frame list"
  tasks :: "task list"
  calls :: "call list"
  now :: time
  py_int :: "string \<Rightarrow> py_exception + int"

record scope =
  url_server_id :: string
  scope_user :: user
  scope_channel :: channel

record consumer =
  server_id :: string
  room_group_name :: string
  channel_name :: channel

record console_consumer = consumer +
  docker_client :: "docker_client option"
  container :: "container option"
  log_task :: "nat option"

record stats_consumer = consumer +
  stats_task :: "nat option"

record event =
  ev_message :: string
  ev_log_level :: string
  ev_timestamp :: time

definition send :: "channel \<Rightarrow> frame \<Rightarrow> world \<Rightarrow> world" where
  "send ch f w = w\<lparr>outbox := (outbox w)(ch := outbox w ch @ [f])\<rparr>"

definition accept :: "channel \<Rightarrow> world \<Rightarrow> world" where
  "accept ch w = send ch AcceptFrame w"

definition close :: "channel \<Rightarrow> world \<Rightarrow> world" where
  "close ch w = send ch CloseFrame w"

definition group_add :: "string \<Rightarrow> channel \<Rightarrow> world \<Rightarrow> world" where
  "group_add g ch w = w\<lparr>groups := (groups w)(g := insert ch (groups w g))\<rparr>"

definition create_task :: "task \<Rightarrow> world \<Rightarrow> nat \<times> world" where
  "create_task t w = (length (tasks w), w\<lparr>tasks := tasks w @ [t]\<rparr>)"

definition get_timestamp :: "world \<Rightarrow> time" where
  "get_timestamp w = now w"

section \<open>ServerConsoleConsumer\<close>

text \<open>
  \<^verbatim>\<open>channel_layer.group_send\<close> with \<^verbatim>\<open>type: console_message\<close> runs the handler
  \<^verbatim>\<open>console_message\<close> of every consumer whose channel is in the group; the handler writes
  one \<^verbatim>\<open>log\<close> frame to its websocket.
\<close>

definition console_message :: "channel \<Rightarrow> event \<Rightarrow> world \<Rightarrow> world" where
  "console_message ch ev w =
     send ch (LogFrame (PyStr (ev_message ev)) (PyStr (ev_log_level ev)) (ev_timestamp ev)) w"

definition group_send :: "string \<Rightarrow> event \<Rightarrow> world \<Rightarrow> world" where
  "group_send g ev w =
     w\<lparr>outbox := (\<lambda>ch. if ch \<in> groups w g then outbox (console_message ch ev w) ch
                        else outbox w ch)\<rparr>"

definition get_server :: "string \<Rightarrow> world \<Rightarrow> py_exception + Server option" where
  "get_server sid w =
     (case py_int w sid of
        Inl e \<Rightarrow> Inl e
      | Inr n \<Rightarrow> Inr (find (\<lambda>s. int (server_pk s) = n) (servers w)))"

text \<open>\<^verbatim>\<open>server.owner == user or user in server.owners.all()\<close>; the members of
  \<^verbatim>\<open>owners\<close> are profiles.\<close>

definition check_access :: "Server \<Rightarrow> user \<Rightarrow> py_exception + bool" where
  "check_access srv u =
     (case Server_getattr srv ''owner'' of
        Inl e \<Rightarrow> Inl e
      | Inr owner \<Rightarrow>
          if owner = PyUser u then Inr True
          else (case Server_getattr srv ''owners'' of
                  Inl e \<Rightarrow> Inl e
                | Inr (PyManager ps) \<Rightarrow> Inr (PyUser u \<in> set (map PyProfile ps))
                | Inr _ \<Rightarrow> Inl (Exc AttributeError ''all'')))"

definition save_log :: "string \<Rightarrow> string \<Rightarrow> string \<Rightarrow> world \<Rightarrow> world" where
  "save_log sid level message w =
     (case ServerLog_objects_create (py_int w)
             [(''server_id'', PyStr sid), (''level'', PyStr level), (''message'', PyStr message)]
             (now w) (history w) of
        Inl e \<Rightarrow> w
      | Inr table \<Rightarrow> w\<lparr>history := table\<rparr>)"

text \<open>The dictionary display of \<^verbatim>\<open>get_recent_logs\<close> reads \<^verbatim>\<open>log.message\<close>,
  \<^verbatim>\<open>log.level\<close> and \<^verbatim>\<open>log.timestamp\<close>, in this order.\<close>

definition log_dict :: "ServerLog \<Rightarrow> py_exception + (pyval \<times> pyval \<times> pyval)" where
  "log_dict l =
     (case ServerLog_getattr l ''message'' of
        Inl e \<Rightarrow> Inl e
      | Inr m \<Rightarrow>
          (case ServerLog_getattr l ''level'' of
             Inl e \<Rightarrow> Inl e
           | Inr lv \<Rightarrow>
               (case ServerLog_getattr l ''timestamp'' of
                  Inl e \<Rightarrow> Inl e
                | Inr ts \<Rightarrow> Inr (m, lv, ts))))"

fun comprehension :: "('a \<Rightarrow> py_exception + 'b) \<Rightarrow> 'a list \<Rightarrow> py_exception + 'b list" where
  "comprehension f [] = Inr []"
| "comprehension f (x # xs) =
     (case f x of
        Inl e \<Rightarrow> Inl e
      | Inr y \<Rightarrow> (case comprehension f xs of Inl e \<Rightarrow> Inl e | Inr ys \<Rightarrow> Inr (y # ys)))"

definition get_recent_logs ::
  "string \<Rightarrow> nat \<Rightarrow> world \<Rightarrow> py_exception + (pyval \<times> pyval \<times> pyval) list" where
  "get_recent_logs sid limit w =
     (case py_int w sid of
        Inl e \<Rightarrow> Inl e
      | Inr n \<Rightarrow>
          comprehension log_dict
            (take limit
               (rev (sort_key timestamp (filter (\<lambda>l. int (server l) = n) (history w))))))"

text \<open>\<^verbatim>\<open>log['timestamp'].isoformat()\<close> needs a datetime.\<close>

definition history_frame :: "pyval \<times> pyval \<times> pyval \<Rightarrow> py_exception + frame" where
  "history_frame d =
     (case d of
        (m, lv, PyDateTime t) \<Rightarrow> Inr (LogFrame m lv t)
      | _ \<Rightarrow> Inl (Exc AttributeError ''isoformat''))"

fun send_each :: "channel \<Rightarrow> (pyval \<times> pyval \<times> pyval) list \<Rightarrow> world \<Rightarrow> world" where
  "send_each ch [] w = w"
| "send_each ch (d # ds) w =
     (case history_frame d of
        Inl e \<Rightarrow> w
      | Inr f \<Rightarrow> send_each ch ds (send ch f w))"

definition send_log_history :: "console_consumer \<Rightarrow> world \<Rightarrow> world" where
  "send_log_history self w =
     (case get_recent_logs (server_id self) 100 w of
        Inl e \<Rightarrow> w
      | Inr logs \<Rightarrow> send_each (channel_name self) logs w)"

definition get_container ::
  "docker_env \<Rightarrow> console_consumer \<Rightarrow> world
     \<Rightarrow> container option \<times> console_consumer \<times> world" where
  "get_container d self w =
     (case container self of
        Some c \<Rightarrow> (Some c, self, w)
      | None \<Rightarrow>
          (case from_env d of
             Inl e \<Rightarrow> (None, self, w\<lparr>calls := calls w @ [FromEnv]\<rparr>)
           | Inr client \<Rightarrow>
               (let self1 = self\<lparr>docker_client := Some client\<rparr>;
                    container_name = ''minecraft_server_'' @ server_id self;
                    w1 = w\<lparr>calls := calls w @ [FromEnv, ContainersGet container_name]\<rparr>
                in case containers_get d container_name of
                     Inl e \<Rightarrow> (None, self1, w1)
                   | Inr c \<Rightarrow> (Some c, self1\<lparr>container := Some c\<rparr>, w1))))"

definition command_line :: "string \<Rightarrow> string" where
  "command_line command = ''echo '' @ [CHR 0x27] @ command @ [CHR 0x27] @ '' > /minecraft/stdin''"

definition execute_command ::
  "docker_env \<Rightarrow> console_consumer \<Rightarrow> string \<Rightarrow> world \<Rightarrow> console_consumer \<times> world" where
  "execute_command d self command w =
     (case get_container d self w of
        (None, self1, w1) \<Rightarrow>
          (self1, send (channel_name self1) (ErrorFrame ''Server container not found'') w1)
      | (Some c, self1, w1) \<Rightarrow>
          (let w2 = w1\<lparr>calls := calls w1 @ [ExecRun c (command_line command)]\<rparr>
           in case exec_run d c (command_line command) of
                Inl e \<Rightarrow>
                  (self1, send (channel_name self1)
                            (ErrorFrame (''Failed to execute command: '' @ str_exc e)) w2)
              | Inr exec_result \<Rightarrow>
                  (let w3 = save_log (server_id self1) ''COMMAND'' (''> '' @ command) w2;
                       w4 = group_send (room_group_name self1)
                              \<lparr>ev_message = ''> '' @ command, ev_log_level = ''COMMAND'',
                               ev_timestamp = get_timestamp w3\<rparr> w3
                   in (self1, w4))))"

definition start_log_stream ::
  "docker_env \<Rightarrow> console_consumer \<Rightarrow> world \<Rightarrow> console_consumer \<times> world" where
  "start_log_stream d self w =
     (case get_container d self w of
        (None, self1, w1) \<Rightarrow>
          (self1, send (channel_name self1) (InfoFrame ''Server is not running'') w1)
      | (Some c, self1, w1) \<Rightarrow>
          (case create_task (StreamLogs (channel_name self1) c) w1 of
             (t, w2) \<Rightarrow> (self1\<lparr>log_task := Some t\<rparr>, w2)))"

text \<open>\<^verbatim>\<open>ServerConsoleConsumer.connect\<close>. An exception of \<^verbatim>\<open>get_server\<close> or
  \<^verbatim>\<open>check_access\<close> is not caught here: it leaves \<^verbatim>\<open>connect\<close>.\<close>

definition console_init :: "scope \<Rightarrow> console_consumer" where
  "console_init sc =
     \<lparr>server_id = url_server_id sc,
      room_group_name = ''console_'' @ url_server_id sc,
      channel_name = scope_channel sc,
      docker_client = None, container = None, log_task = None\<rparr>"

definition ServerConsoleConsumer_connect ::
  "docker_env \<Rightarrow> scope \<Rightarrow> world \<Rightarrow> (py_exception + unit) \<times> console_consumer \<times> world" where
  "ServerConsoleConsumer_connect d sc w =
     (let self = console_init sc; u = scope_user sc in
      if \<not> is_authenticated u then (Inr (), self, close (channel_name self) w)
      else case get_server (server_id self) w of
             Inl e \<Rightarrow> (Inl e, self, w)
           | Inr None \<Rightarrow> (Inr (), self, close (channel_name self) w)
           | Inr (Some srv) \<Rightarrow>
               (let w1 = w\<lparr>calls := calls w @ [CheckAccess (server_pk srv) (user_pk u)]\<rparr>
                in case check_access srv u of
                     Inl e \<Rightarrow> (Inl e, self, w1)
                   | Inr has_access \<Rightarrow>
                       if \<not> has_access then (Inr (), self, close (channel_name self) w1)
                       else (let w2 = group_add (room_group_name self) (channel_name self) w1;
                                 w3 = accept (channel_name self) w2
                             in case start_log_stream d self w3 of
                                  (self1, w4) \<Rightarrow> (Inr (), self1, w4))))"

section \<open>ServerStatsConsumer\<close>

definition stats_init :: "scope \<Rightarrow> stats_consumer" where
  "stats_init sc =
     \<lparr>server_id = url_server_id sc,
      room_group_name = ''stats_'' @ url_server_id sc,
      channel_name = scope_channel sc,
      stats_task = None\<rparr>"

definition ServerStatsConsumer_connect :: "scope \<Rightarrow> world \<Rightarrow> stats_consumer \<times> world" where
  "ServerStatsConsumer_connect sc w =
     (let self = stats_init sc; u = scope_user sc in
      if \<not> is_authenticated u then (self, close (channel_name self) w)
      else (let w1 = group_add (room_group_name self) (channel_name self) w;
                w2 = accept (channel_name self) w1
            in case create_task (SendStatsLoop (channel_name self)) w2 of
                 (t, w3) \<Rightarrow> (self\<lparr>stats_task := Some t\<rparr>, w3)))"

text \<open>
  Python floats stay abstract: \<open>'f\<close> is the type of floats and \<open>float_ops\<close> holds the three
  float operations of \<^verbatim>\<open>get_server_stats\<close>: true division of two integers (divisor not
  zero), multiplication by \<^verbatim>\<open>100.0\<close>, and \<^verbatim>\<open>round(x, 2)\<close>. A number is an \<^verbatim>\<open>int\<close> or a
  \<^verbatim>\<open>float\<close>; \<^verbatim>\<open>round\<close> of an \<^verbatim>\<open>int\<close> to two places is that \<^verbatim>\<open>int\<close>.
\<close>

record 'f float_ops =
  truediv :: "int \<Rightarrow> int \<Rightarrow> 'f"
  times_100 :: "'f \<Rightarrow> 'f"
  round_2 :: "'f \<Rightarrow> 'f"

datatype 'f number = IntNum int | FloatNum 'f

record 'f stats_sample =
  cpu_percent :: "'f number"
  memory_mb :: "'f number"
  memory_limit_mb :: "'f number"
  memory_percent :: "'f number"
  online :: bool

definition andthen :: "'e + 'a \<Rightarrow> ('a \<Rightarrow> 'e + 'b) \<Rightarrow> 'e + 'b" where
  "andthen m f = (case m of Inl e \<Rightarrow> Inl e | Inr x \<Rightarrow> f x)"

definition subscript :: "'a option \<Rightarrow> string \<Rightarrow> py_exception + 'a" where
  "subscript v key = (case v of None \<Rightarrow> Inl (Exc KeyError key) | Some x \<Rightarrow> Inr x)"

definition py_truediv :: "'f float_ops \<Rightarrow> int \<Rightarrow> int \<Rightarrow> py_exception + 'f" where
  "py_truediv fo a b =
     (if b = 0 then Inl (Exc ZeroDivisionError ''division by zero'')
      else Inr (truediv fo a b))"

definition py_round_2 :: "'f float_ops \<Rightarrow> 'f number \<Rightarrow> 'f number" where
  "py_round_2 fo x = (case x of IntNum n \<Rightarrow> IntNum n | FloatNum y \<Rightarrow> FloatNum (round_2 fo y))"

text \<open>Line 348:
  \<^verbatim>\<open>cpu_percent = (cpu_delta / system_delta) * 100.0 if system_delta > 0 else 0\<close>.\<close>

definition cpu_percent_of :: "'f float_ops \<Rightarrow> int \<Rightarrow> int \<Rightarrow> py_exception + 'f number" where
  "cpu_percent_of fo cpu_delta system_delta =
     (if system_delta > 0
      then andthen (py_truediv fo cpu_delta system_delta)
             (\<lambda>q. Inr (FloatNum (times_100 fo q)))
      else Inr (IntNum 0))"

text \<open>The body of the \<^verbatim>\<open>try\<close> block of \<^verbatim>\<open>get_server_stats\<close>, in the source's order of
  evaluation.\<close>

definition try_get_server_stats ::
  "'f float_ops \<Rightarrow> docker_env \<Rightarrow> stats_consumer \<Rightarrow> py_exception + 'f stats_sample" where
  "try_get_server_stats fo d self =
     andthen (from_env d) (\<lambda>client.
     andthen (containers_get d (''minecraft_server_'' @ server_id self)) (\<lambda>c.
     andthen (stats d c) (\<lambda>st.
     andthen (subscript (cpu_stats_total_usage st) ''total_usage'') (\<lambda>cur_total.
     andthen (subscript (precpu_stats_total_usage st) ''total_usage'') (\<lambda>pre_total.
     andthen (subscript (cpu_stats_system_cpu_usage st) ''system_cpu_usage'') (\<lambda>cur_system.
     andthen (subscript (precpu_stats_system_cpu_usage st) ''system_cpu_usage'') (\<lambda>pre_system.
     andthen (cpu_percent_of fo (cur_total - pre_total) (cur_system - pre_system)) (\<lambda>cpu.
     andthen (subscript (memory_stats_usage st) ''usage'') (\<lambda>usage.
     andthen (subscript (memory_stats_limit st) ''limit'') (\<lambda>limit.
     andthen (py_truediv fo usage limit) (\<lambda>ratio.
     andthen (py_truediv fo usage (1024 * 1024)) (\<lambda>used_mb.
     andthen (py_truediv fo limit (1024 * 1024)) (\<lambda>limit_mb.
       Inr \<lparr>cpu_percent = py_round_2 fo cpu,
            memory_mb = FloatNum (round_2 fo used_mb),
            memory_limit_mb = FloatNum (round_2 fo limit_mb),
            memory_percent = FloatNum (round_2 fo (times_100 fo ratio)),
            online = True\<rparr>)))))))))))))"

definition offline_sample :: "'f stats_sample" where
  "offline_sample =
     \<lparr>cpu_percent = IntNum 0, memory_mb = IntNum 0, memory_limit_mb = IntNum 0,
      memory_percent = IntNum 0, online = False\<rparr>"

definition get_server_stats ::
  "'f float_ops \<Rightarrow> docker_env \<Rightarrow> stats_consumer \<Rightarrow> 'f stats_sample" where
  "get_server_stats fo d self =
     (case try_get_server_stats fo d self of
        Inl e \<Rightarrow> offline_sample
      | Inr sample \<Rightarrow> sample)"

text \<open>
  \<^verbatim>\<open>send_stats_loop\<close> runs until it is cancelled. A run of \<open>n\<close> iterations is given by the
  \<open>n\<close> states of the Docker daemon that the iterations observe; the result is the sequence
  of \<^verbatim>\<open>{type: stats, data: ...}\<close> frames written, oldest first.
\<close>

fun send_stats_loop ::
  "'f float_ops \<Rightarrow> docker_env list \<Rightarrow> stats_consumer \<Rightarrow> 'f stats_sample list" where
  "send_stats_loop fo [] self = []"
| "send_stats_loop fo (d # ds) self = get_server_stats fo d self # send_stats_loop fo ds self"

section \<open>The specification's vocabulary and example inputs\<close>

text \<open>``The line contains the marker'', as the specification says it.\<close>

definition spec_contains :: "string \<Rightarrow> string \<Rightarrow> bool" where
  "spec_contains s sub = (\<exists>p q. s = p @ sub @ q)"

text \<open>
  Concrete inputs used to run the definitions: server 7, co-owned by the profile of user 1;
  two clients A and B of user 1 and a client of an authenticated user 2 who owns nothing; a
  daemon where the container of server 7 runs, one where it does not exist, and one where
  it was recreated (the old handle fails, the name now resolves to a new container).
\<close>

definition server_7 :: Server where
  "server_7 =
     \<lparr>server_pk = 7, name = ''survival'', ip_address = ''10.0.0.7'', port = 25565,
      is_online = True, server_type = ''PAPER'', minecraft_version = ''1.20.1'',
      memory = ''2G'', created_at = 10, updated_at = 20,
      owners = [\<lparr>profile_pk = 1, profile_user = 1\<rparr>]\<rparr>"

text \<open>
  The value of \<^verbatim>\<open>int\<close> on a non-empty text of ASCII digits, which is all the examples
  hand to it.
\<close>

definition digit_of :: "char \<Rightarrow> nat option" where
  "digit_of c =
     (if (48 :: nat) \<le> of_char c \<and> (of_char c :: nat) \<le> 57
      then Some ((of_char c :: nat) - 48) else None)"

fun digits_value :: "nat \<Rightarrow> string \<Rightarrow> nat option" where
  "digits_value acc [] = Some acc"
| "digits_value acc (c # cs) =
     (case digit_of c of None \<Rightarrow> None | Some v \<Rightarrow> digits_value (10 * acc + v) cs)"

definition ascii_int :: "string \<Rightarrow> py_exception + int" where
  "ascii_int s =
     (if s = [] then Inl (Exc ValueError ''invalid literal for int()'')
      else case digits_value 0 s of
             None \<Rightarrow> Inl (Exc ValueError ''invalid literal for int()'')
           | Some n \<Rightarrow> Inr (int n))"

definition world_0 :: world where
  "world_0 =
     \<lparr>servers = [server_7], history = [], groups = (\<lambda>g. {}), outbox = (\<lambda>ch. []),
      tasks = [], calls = [], now = 1000, py_int = ascii_int\<rparr>"

definition world_with_log :: world where
  "world_with_log =
     world_0\<lparr>history :=
       [\<lparr>log_pk = 1, server = 7, timestamp = 900, log_entry = ''Done (3.2s)!''\<rparr>]\<rparr>"

definition world_AB :: world where
  "world_AB =
     world_0\<lparr>groups := (\<lambda>g. if g = ''console_7'' then {''chan.A'', ''chan.B''} else {})\<rparr>"

definition scope_A :: scope where
  "scope_A =
     \<lparr>url_server_id = ''7'', scope_user = \<lparr>user_pk = 1, is_authenticated = True\<rparr>,
      scope_channel = ''chan.A''\<rparr>"

definition scope_B :: scope where
  "scope_B =
     \<lparr>url_server_id = ''7'', scope_user = \<lparr>user_pk = 1, is_authenticated = True\<rparr>,
      scope_channel = ''chan.B''\<rparr>"

definition scope_outsider :: scope where
  "scope_outsider =
     \<lparr>url_server_id = ''7'', scope_user = \<lparr>user_pk = 2, is_authenticated = True\<rparr>,
      scope_channel = ''chan.X''\<rparr>"

definition stats_7 :: docker_stats where
  "stats_7 =
     \<lparr>cpu_stats_total_usage = Some 5000, precpu_stats_total_usage = Some 4000,
      cpu_stats_system_cpu_usage = Some 90000, precpu_stats_system_cpu_usage = Some 90000,
      memory_stats_usage = Some 1048576, memory_stats_limit = Some 2097152\<rparr>"

definition docker_running :: docker_env where
  "docker_running =
     \<lparr>from_env = Inr DockerClient,
      containers_get = (\<lambda>n. if n = ''minecraft_server_7'' then Inr (Container 1)
                              else Inl (Exc NotFound ''No such container'')),
      exec_run = (\<lambda>c cmd. Inr ()),
      stats = (\<lambda>c. Inr stats_7)\<rparr>"

definition docker_absent :: docker_env where
  "docker_absent =
     \<lparr>from_env = Inr DockerClient,
      containers_get = (\<lambda>n. Inl (Exc NotFound ''No such container'')),
      exec_run = (\<lambda>c cmd. Inl (Exc NotFound ''No such container'')),
      stats = (\<lambda>c. Inl (Exc NotFound ''No such container''))\<rparr>"

definition docker_recreated :: docker_env where
  "docker_recreated =
     \<lparr>from_env = Inr DockerClient,
      containers_get = (\<lambda>n. if n = ''minecraft_server_7'' then Inr (Container 2)
                              else Inl (Exc NotFound ''No such container'')),
      exec_run = (\<lambda>c cmd. if c = Container 2 then Inr ()
                            else Inl (Exc NotFound ''No such container'')),
      stats = (\<lambda>c. if c = Container 2 then Inr stats_7
                      else Inl (Exc NotFound ''No such container''))\<rparr>"

text \<open>Exact rational arithmetic as an instance of the float operations, to evaluate
  \<^verbatim>\<open>get_server_stats\<close> on concrete counters.\<close>

definition exact_ops :: "rat float_ops" where
  "exact_ops =
     \<lparr>truediv = (\<lambda>a b. of_int a / of_int b),
      times_100 = (\<lambda>x. x * 100),
      round_2 = (\<lambda>x. of_int (round (x * 100)) / 100)\<rparr>"

text \<open>The \<^verbatim>\<open>log\<close> frame that echoes a command: text \<^verbatim>\<open>> command\<close>, level COMMAND.\<close>

definition command_frame :: "string \<Rightarrow> time \<Rightarrow> frame" where
  "command_frame command t = LogFrame (PyStr (''> '' @ command)) (PyStr ''COMMAND'') t"

section \<open>Properties of the string primitives\<close>

lemma startswith_iff: "startswith s sub \<longleftrightarrow> (\<exists>q. s = sub @ q)"
  by (induction s sub rule: startswith.induct) auto

lemma py_in_iff: "py_in sub s \<longleftrightarrow> (\<exists>p q. s = p @ sub @ q)"
proof (induction s)
  case Nil
  then show ?case by auto
next
  case (Cons c cs)
  show ?case
  proof
    assume "py_in sub (c # cs)"
    then consider "startswith (c # cs) sub" | "py_in sub cs" by auto
    then show "\<exists>p q. c # cs = p @ sub @ q"
    proof cases
      case 1
      then obtain q where "c # cs = sub @ q" by (auto simp: startswith_iff)
      then have "c # cs = [] @ sub @ q" by simp
      then show ?thesis by blast
    next
      case 2
      then obtain p q where "cs = p @ sub @ q" using Cons.IH by blast
      then have "c # cs = (c # p) @ sub @ q" by simp
      then show ?thesis by blast
    qed
  next
    assume "\<exists>p q. c # cs = p @ sub @ q"
    then obtain p q where pq: "c # cs = p @ sub @ q" by blast
    show "py_in sub (c # cs)"
    proof (cases p)
      case Nil
      with pq have "startswith (c # cs) sub" by (auto simp: startswith_iff)
      then show ?thesis by simp
    next
      case (Cons a p')
      with pq have "cs = p' @ sub @ q" by simp
      then have "py_in sub cs" using Cons.IH by blast
      then show ?thesis by simp
    qed
  qed
qed

lemma spec_contains_code: "spec_contains s sub = py_in sub s"
  by (simp add: spec_contains_def py_in_iff)

section \<open>The log classifier is the priority chain\<close>

text \<open>
  C2. \<^verbatim>\<open>parse_log_level\<close> is a total function of the line alone. If the upper-cased line
  contains ERROR or SEVERE the result is ERROR; otherwise, if it contains WARN or WARNING,
  WARN; otherwise, if it contains DEBUG, DEBUG; otherwise, if it contains SUCCESS or DONE,
  SUCCESS; otherwise INFO. The order of the tests is the priority: a line with both a
  WARN and a DEBUG marker (and no ERROR or SEVERE) is WARN.
\<close>

theorem parse_log_level_priority:
  "parse_log_level upper line =
     (if spec_contains (upper line) ''ERROR'' \<or> spec_contains (upper line) ''SEVERE''
        then ''ERROR''
      else if spec_contains (upper line) ''WARN'' \<or> spec_contains (upper line) ''WARNING''
        then ''WARN''
      else if spec_contains (upper line) ''DEBUG'' then ''DEBUG''
      else if spec_contains (upper line) ''SUCCESS'' \<or> spec_contains (upper line) ''DONE''
        then ''SUCCESS''
      else ''INFO'')"
  by (simp add: parse_log_level_def Let_def spec_contains_code)

lemma upper_example:
  "ascii_upper ''[Server] warn: debug mode on'' = ''[SERVER] WARN: DEBUG MODE ON''"
  by code_simp

theorem parse_log_level_priority_witness:
  "spec_contains (ascii_upper ''[Server] warn: debug mode on'') ''WARN'' \<and>
   spec_contains (ascii_upper ''[Server] warn: debug mode on'') ''DEBUG'' \<and>
   parse_log_level ascii_upper ''[Server] warn: debug mode on'' = ''WARN''"
  using parse_log_level_priority [of ascii_upper "''[Server] warn: debug mode on''"]
  by (simp add: upper_example spec_contains_code)

section \<open>Nothing reaches the history store, and nothing comes back from it\<close>

lemma create_rejects:
  "ServerLog_objects_create conv
     [(''server_id'', PyStr sid), (''level'', PyStr level), (''message'', PyStr message)] t table
   = Inl (Exc TypeError ''ServerLog() got unexpected keyword arguments'')"
  by (simp add: ServerLog_objects_create_def ServerLog_init_names_def)

lemma save_log_noop: "save_log sid level message w = w"
  by (simp add: save_log_def create_rejects)

lemma log_dict_raises:
  "log_dict l = Inl (Exc AttributeError ''ServerLog object has no attribute message'')"
  by (simp add: log_dict_def ServerLog_getattr_def)

lemma comprehension_log_dict:
  "comprehension log_dict ls =
     (if ls = [] then Inr []
      else Inl (Exc AttributeError ''ServerLog object has no attribute message''))"
  by (cases ls) (simp_all add: log_dict_raises)

lemma sort_key_eq_Nil: "sort_key f xs = [] \<longleftrightarrow> xs = []"
proof -
  have "length (sort_key f xs) = length xs" by simp
  then show ?thesis by (metis length_0_conv)
qed

lemma send_log_history_noop: "send_log_history self w = w"
  by (simp add: send_log_history_def get_recent_logs_def comprehension_log_dict
      split: sum.splits)

lemma ascii_int_7: "ascii_int ''7'' = Inr 7"
  by code_simp

lemma py_int_7 [simp]:
  "py_int world_0 ''7'' = Inr 7" "py_int world_with_log ''7'' = Inr 7"
  by (simp_all add: world_0_def world_with_log_def ascii_int_7)

text \<open>
  C3. Every call of \<^verbatim>\<open>save_log\<close> returns and leaves the world, the history table
  included, as it was: \<^verbatim>\<open>ServerLog\<close> has no fields \<^verbatim>\<open>level\<close> and \<^verbatim>\<open>message\<close>, so
  \<^verbatim>\<open>ServerLog.objects.create\<close> raises \<^verbatim>\<open>TypeError\<close>, which \<^verbatim>\<open>save_log\<close> swallows.
  \<^verbatim>\<open>get_recent_logs\<close> reads \<^verbatim>\<open>log.message\<close>, which no row has: it returns the empty list
  when the query selects no row and raises \<^verbatim>\<open>AttributeError\<close> as soon as it selects one.
\<close>

theorem save_log_persists_nothing:
  "save_log sid level message w = w \<and>
   ServerLog_objects_create (py_int w)
     [(''server_id'', PyStr sid), (''level'', PyStr level), (''message'', PyStr message)]
     (now w) (history w)
     = Inl (Exc TypeError ''ServerLog() got unexpected keyword arguments'') \<and>
   get_recent_logs sid limit w =
     (case py_int w sid of
        Inl e \<Rightarrow> Inl e
      | Inr n \<Rightarrow>
          if take limit (filter (\<lambda>l. int (server l) = n) (history w)) = [] then Inr []
          else Inl (Exc AttributeError ''ServerLog object has no attribute message''))"
  by (simp add: save_log_noop create_rejects get_recent_logs_def comprehension_log_dict
      sort_key_eq_Nil split: sum.splits)

theorem save_log_persists_nothing_witness:
  "save_log ''7'' ''INFO'' ''Done (3.2s)!'' world_with_log = world_with_log \<and>
   get_recent_logs ''7'' 100 world_with_log =
     Inl (Exc AttributeError ''ServerLog object has no attribute message'') \<and>
   get_recent_logs ''7'' 100 world_0 = Inr []"
  using save_log_persists_nothing [of "''7''" "''INFO''" "''Done (3.2s)!''" world_with_log 100]
        save_log_persists_nothing [of "''7''" "''INFO''" "''Done (3.2s)!''" world_0 100]
  by (simp add: world_with_log_def world_0_def ascii_int_7)

text \<open>
  C4 (the code does not do this). A history replay should deliver the most recent rows,
  newest first, at most 100, each as a \<^verbatim>\<open>log\<close> frame. With one row stored for server 7,
  \<^verbatim>\<open>get_recent_logs\<close> raises \<^verbatim>\<open>AttributeError\<close> on \<^verbatim>\<open>log.message\<close>, \<^verbatim>\<open>send_log_history\<close>
  swallows it, and the client receives no frame.
\<close>

theorem send_log_history_delivers_nothing:
  "filter (\<lambda>l. int (server l) = 7) (history world_with_log) =
     [\<lparr>log_pk = 1, server = 7, timestamp = 900, log_entry = ''Done (3.2s)!''\<rparr>] \<and>
   get_recent_logs (server_id (console_init scope_A)) 100 world_with_log =
     Inl (Exc AttributeError ''ServerLog object has no attribute message'') \<and>
   send_log_history (console_init scope_A) world_with_log = world_with_log \<and>
   outbox (send_log_history (console_init scope_A) world_with_log) ''chan.A'' = []"
  by (simp add: send_log_history_noop get_recent_logs_def log_dict_raises ascii_int_7
      console_init_def scope_A_def world_with_log_def world_0_def)

section \<open>The container handle\<close>

lemma get_container_cached:
  "container self = Some c \<Longrightarrow> get_container d self w = (Some c, self, w)"
  by (simp add: get_container_def)

lemma get_container_resolved:
  assumes "container self = None" and "from_env d = Inr cl"
      and "containers_get d (''minecraft_server_'' @ server_id self) = Inr c"
  shows "get_container d self w =
           (Some c, self\<lparr>docker_client := Some cl, container := Some c\<rparr>,
            w\<lparr>calls := calls w @ [FromEnv, ContainersGet (''minecraft_server_'' @ server_id self)]\<rparr>)"
  using assms by (simp add: get_container_def Let_def)

lemma get_container_failed:
  assumes "container self = None"
      and "from_env d = Inl e \<or> containers_get d (''minecraft_server_'' @ server_id self) = Inl e"
  shows "\<exists>self1 w1. get_container d self w = (None, self1, w1) \<and>
           container self1 = None \<and> log_task self1 = log_task self \<and>
           channel_name self1 = channel_name self \<and> server_id self1 = server_id self \<and>
           room_group_name self1 = room_group_name self \<and>
           outbox w1 = outbox w \<and> tasks w1 = tasks w \<and> groups w1 = groups w \<and>
           history w1 = history w \<and> now w1 = now w"
  using assms by (auto simp: get_container_def Let_def split: sum.splits)

lemma start_log_stream_running:
  assumes "container self = None" and "from_env d = Inr cl"
      and "containers_get d (''minecraft_server_'' @ server_id self) = Inr c"
  shows "start_log_stream d self w =
           (self\<lparr>docker_client := Some cl, container := Some c, log_task := Some (length (tasks w))\<rparr>,
            w\<lparr>calls := calls w @ [FromEnv, ContainersGet (''minecraft_server_'' @ server_id self)],
              tasks := tasks w @ [StreamLogs (channel_name self) c]\<rparr>)"
  by (simp add: start_log_stream_def get_container_resolved [OF assms] create_task_def)

lemma start_log_stream_not_running:
  assumes "container self = None" and "log_task self = None"
      and "from_env d = Inl e \<or> containers_get d (''minecraft_server_'' @ server_id self) = Inl e"
  shows "case start_log_stream d self w of
           (self1, w1) \<Rightarrow>
             outbox w1 = (outbox w)(channel_name self :=
                            outbox w (channel_name self) @ [InfoFrame ''Server is not running''])
             \<and> tasks w1 = tasks w \<and> groups w1 = groups w
             \<and> log_task self1 = None \<and> container self1 = None"
proof -
  from get_container_failed [OF assms(1) assms(3), of w]
  obtain self1 w1 where g: "get_container d self w = (None, self1, w1)"
    and f: "container self1 = None" "log_task self1 = log_task self"
      "channel_name self1 = channel_name self" "outbox w1 = outbox w" "tasks w1 = tasks w"
      "groups w1 = groups w"
    by blast
  show ?thesis
    using assms(2) f by (simp add: start_log_stream_def g send_def)
qed

section \<open>Command echo\<close>

lemma outbox_group_send:
  "outbox (group_send g ev w) =
     (\<lambda>ch. if ch \<in> groups w g
           then outbox w ch @ [LogFrame (PyStr (ev_message ev)) (PyStr (ev_log_level ev)) (ev_timestamp ev)]
           else outbox w ch)"
  by (auto simp: group_send_def console_message_def send_def fun_eq_iff)

lemma group_send_other [simp]:
  "groups (group_send g ev w) = groups w" "now (group_send g ev w) = now w"
  "tasks (group_send g ev w) = tasks w" "history (group_send g ev w) = history w"
  "calls (group_send g ev w) = calls w"
  by (simp_all add: group_send_def)

lemma get_container_frame:
  "get_container d self w = (r, self1, w1) \<Longrightarrow>
     outbox w1 = outbox w \<and> groups w1 = groups w \<and> now w1 = now w \<and> tasks w1 = tasks w \<and>
     history w1 = history w \<and>
     channel_name self1 = channel_name self \<and> room_group_name self1 = room_group_name self \<and>
     server_id self1 = server_id self \<and> log_task self1 = log_task self"
  by (auto simp: get_container_def Let_def split: option.splits sum.splits)

lemma execute_command_ok:
  assumes "fst (get_container d self w) = Some c"
      and "exec_run d c (command_line command) = Inr r"
  shows "outbox (snd (execute_command d self command w)) =
           (\<lambda>ch. if ch \<in> groups w (room_group_name self)
                 then outbox w ch @ [command_frame command (now w)] else outbox w ch)"
    and "groups (snd (execute_command d self command w)) = groups w"
    and "history (snd (execute_command d self command w)) = history w"
proof -
  obtain self1 w1 where g: "get_container d self w = (Some c, self1, w1)"
    using assms(1) by (cases "get_container d self w") auto
  note fr = get_container_frame [OF g]
  show "outbox (snd (execute_command d self command w)) =
           (\<lambda>ch. if ch \<in> groups w (room_group_name self)
                 then outbox w ch @ [command_frame command (now w)] else outbox w ch)"
    using fr assms(2)
    by (auto simp: execute_command_def g Let_def save_log_noop outbox_group_send
        get_timestamp_def command_frame_def fun_eq_iff)
  show "groups (snd (execute_command d self command w)) = groups w"
    using fr assms(2) by (simp add: execute_command_def g Let_def save_log_noop)
  show "history (snd (execute_command d self command w)) = history w"
    using fr assms(2) by (simp add: execute_command_def g Let_def save_log_noop)
qed

lemma execute_command_not_found:
  assumes "fst (get_container d self w) = None"
  shows "outbox (snd (execute_command d self command w)) =
           (outbox w)(channel_name self :=
              outbox w (channel_name self) @ [ErrorFrame ''Server container not found''])"
proof -
  obtain self1 w1 where g: "get_container d self w = (None, self1, w1)"
    using assms(1) by (cases "get_container d self w") auto
  note fr = get_container_frame [OF g]
  show ?thesis using fr by (simp add: execute_command_def g send_def)
qed

lemma execute_command_exec_failed:
  assumes "fst (get_container d self w) = Some c"
      and "exec_run d c (command_line command) = Inl e"
  shows "outbox (snd (execute_command d self command w)) =
           (outbox w)(channel_name self :=
              outbox w (channel_name self) @ [ErrorFrame (''Failed to execute command: '' @ str_exc e)])"
proof -
  obtain self1 w1 where g: "get_container d self w = (Some c, self1, w1)"
    using assms(1) by (cases "get_container d self w") auto
  note fr = get_container_frame [OF g]
  show ?thesis using fr assms(2) by (simp add: execute_command_def g send_def Let_def)
qed

text \<open>
  C5 (as amended). When the container handle of the submitting connection resolves and
  \<^verbatim>\<open>exec_run\<close> returns, \<^verbatim>\<open>execute_command\<close> appends one COMMAND frame with text
  \<^verbatim>\<open>> command\<close> to the websocket of every channel in the connection's room group, and
  to no other. When the handle does not resolve, or \<^verbatim>\<open>exec_run\<close> raises, no COMMAND
  frame is written: the submitter alone is sent an error frame. Two commands handled one
  after the other (by the same or by two connections of the group) reach every member in
  that order. The code has no mutex and no queue.
\<close>

theorem execute_command_echo:
  "(fst (get_container d self w) = None \<longrightarrow>
      outbox (snd (execute_command d self command w)) =
        (outbox w)(channel_name self :=
           outbox w (channel_name self) @ [ErrorFrame ''Server container not found''])) \<and>
   (fst (get_container d self w) = Some c \<and> exec_run d c (command_line command) = Inl e \<longrightarrow>
      outbox (snd (execute_command d self command w)) =
        (outbox w)(channel_name self :=
           outbox w (channel_name self) @
             [ErrorFrame (''Failed to execute command: '' @ str_exc e)])) \<and>
   (fst (get_container d self w) = Some c \<and> exec_run d c (command_line command) = Inr r \<longrightarrow>
      outbox (snd (execute_command d self command w)) =
        (\<lambda>ch. if ch \<in> groups w (room_group_name self)
              then outbox w ch @ [command_frame command (now w)] else outbox w ch) \<and>
      (w1 = (snd (execute_command d self command w))\<lparr>now := t\<rparr> \<and>
       fst (get_container d' self' w1) = Some c' \<and>
       exec_run d' c' (command_line command') = Inr r' \<and>
       room_group_name self' = room_group_name self \<longrightarrow>
         outbox (snd (execute_command d' self' command' w1)) =
           (\<lambda>ch. if ch \<in> groups w (room_group_name self)
                 then outbox w ch @ [command_frame command (now w), command_frame command' t]
                 else outbox w ch)))"
proof (intro conjI impI)
  assume "fst (get_container d self w) = None"
  then show "outbox (snd (execute_command d self command w)) =
        (outbox w)(channel_name self :=
           outbox w (channel_name self) @ [ErrorFrame ''Server container not found''])"
    by (rule execute_command_not_found)
next
  assume "fst (get_container d self w) = Some c \<and> exec_run d c (command_line command) = Inl e"
  then show "outbox (snd (execute_command d self command w)) =
        (outbox w)(channel_name self :=
           outbox w (channel_name self) @
             [ErrorFrame (''Failed to execute command: '' @ str_exc e)])"
    by (simp add: execute_command_exec_failed)
next
  assume "fst (get_container d self w) = Some c \<and> exec_run d c (command_line command) = Inr r"
  then show "outbox (snd (execute_command d self command w)) =
        (\<lambda>ch. if ch \<in> groups w (room_group_name self)
              then outbox w ch @ [command_frame command (now w)] else outbox w ch)"
    by (simp add: execute_command_ok(1))
next
  assume ok: "fst (get_container d self w) = Some c \<and> exec_run d c (command_line command) = Inr r"
    and nxt: "w1 = (snd (execute_command d self command w))\<lparr>now := t\<rparr> \<and>
       fst (get_container d' self' w1) = Some c' \<and>
       exec_run d' c' (command_line command') = Inr r' \<and>
       room_group_name self' = room_group_name self"
  have g1: "groups w1 = groups w"
    and o1: "outbox w1 = outbox (snd (execute_command d self command w))"
    and n1: "now w1 = t"
    using execute_command_ok(2) [of d self w c command r] ok nxt by simp_all
  have first: "outbox (snd (execute_command d self command w)) =
           (\<lambda>ch. if ch \<in> groups w (room_group_name self)
                 then outbox w ch @ [command_frame command (now w)] else outbox w ch)"
    using ok by (simp add: execute_command_ok(1))
  have second: "outbox (snd (execute_command d' self' command' w1)) =
           (\<lambda>ch. if ch \<in> groups w1 (room_group_name self')
                 then outbox w1 ch @ [command_frame command' (now w1)] else outbox w1 ch)"
  proof -
    have h4: "fst (get_container d' self' w1) = Some c'"
      and h5: "exec_run d' c' (command_line command') = Inr r'"
      using nxt by blast+
    show ?thesis by (rule execute_command_ok(1) [OF h4 h5])
  qed
  have same: "room_group_name self' = room_group_name self" using nxt by simp
  show "outbox (snd (execute_command d' self' command' w1)) =
           (\<lambda>ch. if ch \<in> groups w (room_group_name self)
                 then outbox w ch @ [command_frame command (now w), command_frame command' t]
                 else outbox w ch)"
    unfolding second g1 o1 n1 same first by (auto simp: fun_eq_iff)
qed

theorem execute_command_echo_witness:
  "fst (get_container docker_running (console_init scope_A) world_AB) = Some (Container 1) \<and>
   exec_run docker_running (Container 1) (command_line ''stop'') = Inr () \<and>
   fst (get_container docker_running (console_init scope_B)
          ((snd (execute_command docker_running (console_init scope_A) ''stop'' world_AB))
             \<lparr>now := 1001\<rparr>))
     = Some (Container 1) \<and>
   exec_run docker_running (Container 1) (command_line ''list'') = Inr () \<and>
   room_group_name (console_init scope_B) = room_group_name (console_init scope_A) \<and>
   outbox (snd (execute_command docker_running (console_init scope_A) ''stop'' world_AB))
     = (\<lambda>ch. if ch \<in> {''chan.A'', ''chan.B''} then [command_frame ''stop'' 1000] else []) \<and>
   outbox (snd (execute_command docker_running (console_init scope_B) ''list''
          ((snd (execute_command docker_running (console_init scope_A) ''stop'' world_AB))
             \<lparr>now := 1001\<rparr>)))
     = (\<lambda>ch. if ch \<in> {''chan.A'', ''chan.B''}
             then [command_frame ''stop'' 1000, command_frame ''list'' 1001] else []) \<and>
   fst (get_container docker_absent (console_init scope_A) world_AB) = None \<and>
   outbox (snd (execute_command docker_absent (console_init scope_A) ''stop'' world_AB))
     = (\<lambda>ch. if ch = ''chan.A'' then [ErrorFrame ''Server container not found''] else [])"
proof -
  have a: "fst (get_container docker_running (console_init scope_A) world_AB) = Some (Container 1)"
    by (simp add: get_container_def Let_def console_init_def scope_A_def docker_running_def)
  have b: "fst (get_container docker_running (console_init scope_B) w) = Some (Container 1)" for w
    by (simp add: get_container_def Let_def console_init_def scope_B_def docker_running_def)
  have n: "fst (get_container docker_absent (console_init scope_A) world_AB) = None"
    by (simp add: get_container_def Let_def console_init_def scope_A_def docker_absent_def)
  have e: "exec_run docker_running (Container 1) cmd = Inr ()" for cmd
    by (simp add: docker_running_def)
  have r: "room_group_name (console_init scope_B) = room_group_name (console_init scope_A)"
    by (simp add: console_init_def scope_A_def scope_B_def)
  have g: "groups world_AB (room_group_name (console_init scope_A)) = {''chan.A'', ''chan.B''}"
    "outbox world_AB = (\<lambda>ch. [])" "now world_AB = 1000"
    "channel_name (console_init scope_A) = ''chan.A''"
    by (simp_all add: world_AB_def world_0_def console_init_def scope_A_def)
  from execute_command_echo [where d = docker_running and self = "console_init scope_A"
         and w = world_AB and command = "''stop''" and c = "Container 1" and r = "()"
         and t = 1001 and d' = docker_running and self' = "console_init scope_B"
         and c' = "Container 1" and command' = "''list''" and r' = "()"
         and ?w1.0 = "(snd (execute_command docker_running (console_init scope_A) ''stop'' world_AB))
             \<lparr>now := 1001\<rparr>"]
       execute_command_echo [where d = docker_absent and self = "console_init scope_A"
         and w = world_AB and command = "''stop''"]
  show ?thesis using a b e r n by (auto simp: g fun_eq_iff cong: if_cong)
qed

text \<open>Client A submits ``stop'' while the container of server 7 does not exist: A is
  sent an error frame, and neither A nor B receives a COMMAND frame.\<close>

theorem command_without_container_not_echoed:
  "(case execute_command docker_absent (console_init scope_A) ''stop'' world_AB of
      (self1, w1) \<Rightarrow>
        channel_name (console_init scope_A) \<in> groups world_AB (room_group_name (console_init scope_A)) \<and>
        outbox w1 ''chan.A'' = [ErrorFrame ''Server container not found''] \<and>
        outbox w1 ''chan.B'' = [] \<and>
        command_frame ''stop'' (now world_AB) \<notin> set (outbox w1 ''chan.A''))"
  by (simp add: execute_command_def get_container_def Let_def send_def command_frame_def
      console_init_def scope_A_def docker_absent_def world_AB_def world_0_def)

section \<open>The cached handle is never dropped\<close>

text \<open>
  C6 (as amended). \<^verbatim>\<open>get_container\<close> keeps the first handle it resolves in the
  connection object. From then on every call returns that handle without asking the
  daemon, whatever the daemon would answer, and \<^verbatim>\<open>execute_command\<close> leaves the cached
  handle in place also when \<^verbatim>\<open>exec_run\<close> raises on it.
\<close>

theorem get_container_memoizes:
  assumes "container self = None" and "from_env d = Inr cl"
      and "containers_get d (''minecraft_server_'' @ server_id self) = Inr c"
  shows "case get_container d self w of
           (r, self1, w1) \<Rightarrow>
             r = Some c \<and> container self1 = Some c \<and>
             (\<forall>d' w'. get_container d' self1 w' = (Some c, self1, w')) \<and>
             (\<forall>d' w' command. container (fst (execute_command d' self1 command w')) = Some c)"
proof -
  let ?self1 = "self\<lparr>docker_client := Some cl, container := Some c\<rparr>"
  have cached: "container ?self1 = Some c" by simp
  have again: "get_container d' ?self1 w' = (Some c, ?self1, w')" for d' w'
    by (rule get_container_cached [OF cached])
  have keep: "container (fst (execute_command d' ?self1 command w')) = Some c" for d' w' command
    by (simp add: execute_command_def again Let_def split: sum.splits)
  show ?thesis
    using again keep by (simp add: get_container_resolved [OF assms])
qed

theorem get_container_memoizes_witness:
  "container (console_init scope_A) = None \<and> from_env docker_running = Inr DockerClient \<and>
   containers_get docker_running (''minecraft_server_'' @ server_id (console_init scope_A))
     = Inr (Container 1) \<and>
   (case get_container docker_running (console_init scope_A) world_0 of
      (r, self1, w1) \<Rightarrow>
         r = Some (Container 1) \<and> container self1 = Some (Container 1) \<and>
         get_container docker_absent self1 w1 = (Some (Container 1), self1, w1))"
  using get_container_memoizes [of "console_init scope_A" docker_running DockerClient
          "Container 1" world_0]
  by (simp add: console_init_def scope_A_def docker_running_def split: prod.splits)

text \<open>The container of server 7 is recreated after A resolved it. \<^verbatim>\<open>exec_run\<close> on the
  cached handle raises; the next \<^verbatim>\<open>get_container\<close> still returns the old handle and makes
  no call to the daemon, although the name now resolves to the new container.\<close>

theorem stale_handle_is_reused:
  "(case get_container docker_running (console_init scope_A) world_0 of
      (r1, self1, w1) \<Rightarrow>
        (case execute_command docker_recreated self1 ''stop'' w1 of
           (self2, w2) \<Rightarrow>
             (case get_container docker_recreated self2 w2 of
                (r3, self3, w3) \<Rightarrow>
                   r1 = Some (Container 1) \<and>
                   exec_run docker_recreated (Container 1) (command_line ''stop'')
                     = Inl (Exc NotFound ''No such container'') \<and>
                   outbox w2 ''chan.A'' =
                     [ErrorFrame ''Failed to execute command: No such container''] \<and>
                   containers_get docker_recreated ''minecraft_server_7'' = Inr (Container 2) \<and>
                   r3 = Some (Container 1) \<and> container self3 = Some (Container 1) \<and>
                   calls w3 = [FromEnv, ContainersGet ''minecraft_server_7'',
                               ExecRun (Container 1) (command_line ''stop'')])))"
  by (simp add: get_container_def execute_command_def Let_def send_def
      console_init_def scope_A_def docker_running_def docker_recreated_def world_0_def)

section \<open>Authorization at connect\<close>

lemma check_access_raises:
  "check_access srv u = Inl (Exc AttributeError ''Server object has no attribute owner'')"
  by (simp add: check_access_def Server_getattr_def)

lemma console_connect_checks_access:
  assumes "is_authenticated (scope_user sc)"
      and "get_server (url_server_id sc) w = Inr (Some srv)"
  shows "ServerConsoleConsumer_connect d sc w =
           (Inl (Exc AttributeError ''Server object has no attribute owner''), console_init sc,
            w\<lparr>calls := calls w @ [CheckAccess (server_pk srv) (user_pk (scope_user sc))]\<rparr>)"
  using assms
  by (simp add: ServerConsoleConsumer_connect_def Let_def check_access_raises console_init_def)

lemma stats_connect_accepts:
  assumes "is_authenticated (scope_user sc)"
  shows "ServerStatsConsumer_connect sc w =
           ((stats_init sc)\<lparr>stats_task := Some (length (tasks w))\<rparr>,
            w\<lparr>groups := (groups w)(''stats_'' @ url_server_id sc :=
                           insert (scope_channel sc) (groups w (''stats_'' @ url_server_id sc))),
              outbox := (outbox w)(scope_channel sc := outbox w (scope_channel sc) @ [AcceptFrame]),
              tasks := tasks w @ [SendStatsLoop (scope_channel sc)]\<rparr>)"
  using assms
  by (simp add: ServerStatsConsumer_connect_def Let_def stats_init_def group_add_def accept_def
      send_def create_task_def)

text \<open>
  C7 (the code does not do this). The access check should be consulted once at every
  attach, for console and stats connections alike. User 2 is authenticated and is no owner
  of server 7. \<^verbatim>\<open>ServerStatsConsumer.connect\<close> joins the group, accepts the connection
  and starts the stats loop without any access check; \<^verbatim>\<open>ServerConsoleConsumer.connect\<close>
  on the same input does call \<^verbatim>\<open>check_access\<close> (once) before it would accept.
\<close>

theorem stats_connect_skips_access_check:
  "is_authenticated (scope_user scope_outsider) \<and>
   get_server (url_server_id scope_outsider) world_0 = Inr (Some server_7) \<and>
   user_pk (scope_user scope_outsider) \<notin> set (map profile_user (owners server_7)) \<and>
   check_access server_7 (scope_user scope_outsider) \<noteq> Inr True \<and>
   (case ServerStatsConsumer_connect scope_outsider world_0 of
      (self1, w1) \<Rightarrow>
         outbox w1 ''chan.X'' = [AcceptFrame] \<and>
         tasks w1 = [SendStatsLoop ''chan.X''] \<and>
         ''chan.X'' \<in> groups w1 ''stats_7'' \<and>
         calls w1 = []) \<and>
   (case ServerConsoleConsumer_connect docker_running scope_outsider world_0 of
      (r, self1, w1) \<Rightarrow>
         calls w1 = [CheckAccess 7 2] \<and> outbox w1 ''chan.X'' = [])"
proof -
  have auth: "is_authenticated (scope_user scope_outsider)" by (simp add: scope_outsider_def)
  have srv: "get_server (url_server_id scope_outsider) world_0 = Inr (Some server_7)"
    by (simp add: get_server_def scope_outsider_def ascii_int_7 world_0_def server_7_def)
  show ?thesis
    using auth srv
    by (simp add: stats_connect_accepts [OF auth] console_connect_checks_access [OF auth srv]
        check_access_raises)
       (simp add: scope_outsider_def world_0_def server_7_def)
qed

section \<open>What attaching a console client does\<close>

text \<open>
  \<^verbatim>\<open>start_log_stream\<close> is called from one place, the last line of \<^verbatim>\<open>connect\<close>, after
  \<^verbatim>\<open>check_access\<close> has returned true. \<^verbatim>\<open>check_access\<close> reads \<^verbatim>\<open>server.owner\<close>, which
  \<^verbatim>\<open>Server\<close> does not declare, so it raises for every server, and \<^verbatim>\<open>connect\<close> ends in
  one of three ways: it closes the connection (anonymous user, unknown server), the
  conversion of the server id raises, or \<^verbatim>\<open>check_access\<close> raises. In none of them is a
  task created, a group joined, or anything but a close written to the websocket.
\<close>

lemma console_connect_never_streams:
  "case ServerConsoleConsumer_connect d sc w of
     (r, self1, w1) \<Rightarrow>
        self1 = console_init sc \<and> tasks w1 = tasks w \<and> groups w1 = groups w \<and>
        history w1 = history w \<and>
        (outbox w1 = outbox w \<or>
         outbox w1 = (outbox w)(scope_channel sc := outbox w (scope_channel sc) @ [CloseFrame]))"
  by (simp add: ServerConsoleConsumer_connect_def Let_def check_access_raises close_def send_def
      console_init_def split: sum.splits option.splits)

lemma get_server_7: "get_server ''7'' world_0 = Inr (Some server_7)"
  by (simp add: get_server_def ascii_int_7 world_0_def server_7_def)


text \<open>
  C10 (the code does not do this). A client attaching to a server whose container is not
  running should be sent the info message ``Server is not running''. A client of user 1
  attaches to server 7 while \<^verbatim>\<open>containers.get\<close> raises \<^verbatim>\<open>NotFound\<close>: \<^verbatim>\<open>connect\<close> ends
  with the \<^verbatim>\<open>AttributeError\<close> of \<^verbatim>\<open>check_access\<close> before \<^verbatim>\<open>start_log_stream\<close>, the
  container is never looked up, and nothing is written to the client's websocket. (No
  reader task is created and nothing is cached, as the claim says.)
\<close>

theorem attach_without_container_sends_no_info:
  "is_authenticated (scope_user scope_A) \<and>
   user_pk (scope_user scope_A) \<in> set (map profile_user (owners server_7)) \<and>
   get_server (url_server_id scope_A) world_0 = Inr (Some server_7) \<and>
   containers_get docker_absent (''minecraft_server_'' @ url_server_id scope_A)
     = Inl (Exc NotFound ''No such container'') \<and>
   (case ServerConsoleConsumer_connect docker_absent scope_A world_0 of
      (r, self1, w1) \<Rightarrow>
         r = Inl (Exc AttributeError ''Server object has no attribute owner'') \<and>
         InfoFrame ''Server is not running'' \<notin> set (outbox w1 ''chan.A'') \<and>
         outbox w1 ''chan.A'' = [] \<and>
         calls w1 = [CheckAccess 7 1] \<and>
         tasks w1 = [] \<and> log_task self1 = None \<and> container self1 = None)"
proof -
  have a: "is_authenticated (scope_user scope_A)" "url_server_id scope_A = ''7''"
    by (simp_all add: scope_A_def)
  have srv: "get_server (url_server_id scope_A) world_0 = Inr (Some server_7)"
    using get_server_7 a(2) by simp
  have run: "ServerConsoleConsumer_connect docker_absent scope_A world_0 =
      (Inl (Exc AttributeError ''Server object has no attribute owner''), console_init scope_A,
       world_0\<lparr>calls := calls world_0 @
                  [CheckAccess (server_pk server_7) (user_pk (scope_user scope_A))]\<rparr>)"
    by (rule console_connect_checks_access [OF a(1) srv])
  show ?thesis
    unfolding run using srv
    by (simp add: scope_A_def server_7_def world_0_def docker_absent_def console_init_def)
qed

section \<open>The stats sampler\<close>

lemma andthen_Inl [simp]: "andthen (Inl e) f = Inl e"
  by (simp add: andthen_def)

lemma andthen_Inr [simp]: "andthen (Inr x) f = f x"
  by (simp add: andthen_def)

lemma try_get_server_stats_online:
  "try_get_server_stats fo d self = Inr s \<Longrightarrow> online s"
  by (auto simp: try_get_server_stats_def andthen_def split: sum.splits)

text \<open>
  C8. A sample of \<^verbatim>\<open>get_server_stats\<close> with \<^verbatim>\<open>online\<close> false has all four numbers equal
  to the integer 0. When the daemon is unreachable, the container cannot be resolved or
  its counters cannot be fetched, \<^verbatim>\<open>get_server_stats\<close> returns exactly that sample
  instead of raising, so a run of the stats loop writes one frame per iteration whatever
  the daemon does.
\<close>

theorem offline_sample_is_all_zero:
  "(\<not> online (get_server_stats fo d self) \<longrightarrow>
      cpu_percent (get_server_stats fo d self) = IntNum 0 \<and>
      memory_mb (get_server_stats fo d self) = IntNum 0 \<and>
      memory_limit_mb (get_server_stats fo d self) = IntNum 0 \<and>
      memory_percent (get_server_stats fo d self) = IntNum 0) \<and>
   (from_env d = Inl e \<or>
    containers_get d (''minecraft_server_'' @ server_id self) = Inl e \<or>
    containers_get d (''minecraft_server_'' @ server_id self) = Inr c \<and> stats d c = Inl e
      \<longrightarrow> get_server_stats fo d self = offline_sample) \<and>
   length (send_stats_loop fo ds self) = length ds"
proof (intro conjI impI)
  assume off: "\<not> online (get_server_stats fo d self)"
  have "get_server_stats fo d self = offline_sample"
  proof (cases "try_get_server_stats fo d self")
    case (Inl e)
    then show ?thesis by (simp add: get_server_stats_def)
  next
    case (Inr s)
    then have "online (get_server_stats fo d self)"
      using try_get_server_stats_online [OF Inr] by (simp add: get_server_stats_def)
    with off show ?thesis by simp
  qed
  then show "cpu_percent (get_server_stats fo d self) = IntNum 0"
    "memory_mb (get_server_stats fo d self) = IntNum 0"
    "memory_limit_mb (get_server_stats fo d self) = IntNum 0"
    "memory_percent (get_server_stats fo d self) = IntNum 0"
    by (simp_all add: offline_sample_def)
next
  assume "from_env d = Inl e \<or>
    containers_get d (''minecraft_server_'' @ server_id self) = Inl e \<or>
    containers_get d (''minecraft_server_'' @ server_id self) = Inr c \<and> stats d c = Inl e"
  then have "\<exists>e'. try_get_server_stats fo d self = Inl e'"
    by (cases "from_env d") (auto simp: try_get_server_stats_def)
  then show "get_server_stats fo d self = offline_sample"
    by (auto simp: get_server_stats_def)
next
  show "length (send_stats_loop fo ds self) = length ds"
    by (induction ds) simp_all
qed

theorem offline_sample_is_all_zero_witness:
  "containers_get docker_absent (''minecraft_server_'' @ server_id (stats_init scope_A))
     = Inl (Exc NotFound ''No such container'') \<and>
   \<not> online (get_server_stats exact_ops docker_absent (stats_init scope_A)) \<and>
   cpu_percent (get_server_stats exact_ops docker_absent (stats_init scope_A)) = IntNum 0 \<and>
   memory_mb (get_server_stats exact_ops docker_absent (stats_init scope_A)) = IntNum 0 \<and>
   memory_limit_mb (get_server_stats exact_ops docker_absent (stats_init scope_A)) = IntNum 0 \<and>
   memory_percent (get_server_stats exact_ops docker_absent (stats_init scope_A)) = IntNum 0 \<and>
   get_server_stats exact_ops docker_absent (stats_init scope_A) = offline_sample \<and>
   length (send_stats_loop exact_ops [docker_running, docker_absent, docker_running]
             (stats_init scope_A)) = 3"
  using offline_sample_is_all_zero [of exact_ops docker_absent "stats_init scope_A"
          "Exc NotFound ''No such container''" "Container 1"
          "[docker_running, docker_absent, docker_running]"]
  by (simp add: docker_absent_def offline_sample_def)

text \<open>
  C9. The CPU percentage computed on line 348 is exactly the integer 0 when the system
  delta is zero or negative, and the float \<^verbatim>\<open>(cpu_delta / system_delta) * 100.0\<close>
  otherwise; it never raises. When the counters are present and the memory limit is not
  zero, the sample is online and carries that value, rounded to two places.
\<close>

theorem cpu_percent_clamped:
  "cpu_percent_of fo cpu_delta system_delta =
     (if system_delta \<le> 0 then Inr (IntNum 0)
      else Inr (FloatNum (times_100 fo (truediv fo cpu_delta system_delta)))) \<and>
   (stats d c = Inr st \<and> from_env d = Inr cl \<and>
    containers_get d (''minecraft_server_'' @ server_id self) = Inr c \<and>
    cpu_stats_total_usage st = Some cur_total \<and> precpu_stats_total_usage st = Some pre_total \<and>
    cpu_stats_system_cpu_usage st = Some cur_system \<and>
    precpu_stats_system_cpu_usage st = Some pre_system \<and>
    memory_stats_usage st = Some usage \<and> memory_stats_limit st = Some limit \<and> limit \<noteq> 0
    \<longrightarrow> online (get_server_stats fo d self) \<and>
        cpu_percent (get_server_stats fo d self) =
          (if cur_system - pre_system \<le> 0 then IntNum 0
           else FloatNum (round_2 fo (times_100 fo
                  (truediv fo (cur_total - pre_total) (cur_system - pre_system))))))"
  by (auto simp: cpu_percent_of_def py_truediv_def get_server_stats_def try_get_server_stats_def
      subscript_def py_round_2_def)

theorem cpu_percent_clamped_witness:
  "cpu_percent_of exact_ops 1000 0 = Inr (IntNum 0) \<and>
   cpu_percent_of exact_ops 1000 (-5) = Inr (IntNum 0) \<and>
   cpu_percent_of exact_ops 1000 4000 = Inr (FloatNum 25) \<and>
   online (get_server_stats exact_ops docker_running (stats_init scope_A)) \<and>
   cpu_percent (get_server_stats exact_ops docker_running (stats_init scope_A)) = IntNum 0"
  using cpu_percent_clamped [of exact_ops 1000 0]
        cpu_percent_clamped [of exact_ops 1000 "-5"]
        cpu_percent_clamped [of exact_ops 1000 4000]
        cpu_percent_clamped [of exact_ops 0 1 docker_running "Container 1" stats_7 DockerClient
          "stats_init scope_A" 5000 4000 90000 90000 1048576 2097152]
  by (simp add: exact_ops_def docker_running_def stats_7_def stats_init_def scope_A_def)

end
